theory Spec2Isabelle
  imports Complex_Main "HOL-Library.Sublist" "HOL-Library.Log_Nat"
begin

section \<open>Data model\<close>

text \<open>
  A Python \<open>str\<close> is a sequence of Unicode code points, so a text is a list of
  code points (\<open>nat\<close>), not a byte string. Python floats are idealised as real
  numbers in the statements that range over all inputs; the worked example, whose
  last digits depend on rounding, is evaluated with a second model of the scorer
  in binary64 arithmetic. Dictionaries with
  string keys are maps from \<open>string\<close>; a failed subscript raises \<open>KeyError\<close>, an
  out-of-range list index raises \<open>IndexError\<close>.
\<close>

type_synonym pystr = "nat list"

datatype error = KeyError string | IndexError

text \<open>
  The regular expressions \<open>\w\<close> and \<open>\s\<close> and the method \<open>str.strip\<close> read the
  Unicode tables of the Python runtime (\<open>str.isalnum\<close>, \<open>str.isspace\<close>). The tables
  are not part of the repository: they are parameters of the model, and every
  theorem holds for all tables.
\<close>

record unicode_tables =
  isalnum :: "nat \<Rightarrow> bool"
  isspace :: "nat \<Rightarrow> bool"

text \<open>
  The tables restricted to ASCII and the Hangul syllable block, for running the
  definitions on concrete texts.
\<close>

definition ascii_hangul :: unicode_tables where
  "ascii_hangul =
     \<lparr> isalnum = (\<lambda>c. (48 \<le> c \<and> c \<le> 57) \<or> (65 \<le> c \<and> c \<le> 90) \<or> (97 \<le> c \<and> c \<le> 122)
                       \<or> (44032 \<le> c \<and> c \<le> 55203)),
       isspace = (\<lambda>c. c = 32 \<or> (9 \<le> c \<and> c \<le> 13)) \<rparr>"

section \<open>Constants of \<open>utils.py\<close>\<close>

definition KOREAN_CONNECTIVES :: "pystr set" where
  "KOREAN_CONNECTIVES = set
     [[46608, 54620], [54616, 51648, 47564], [44536, 47084, 45208],
      [44208, 47200, 51201, 51004, 47196], [50836, 50557, 54616, 51088, 47732],
      [44172, 45796, 44032], [54620, 54200], [46384, 46972, 49436], [51593],
      [46412, 47928, 50640], [44536, 47100, 50640, 46020]]"

definition FORMAL_ENDINGS :: "pystr list" where
  "FORMAL_ENDINGS =
     [[45768, 45796, 46], [45768, 45796, 33], [45768, 45796, 63],
      [45796, 46], [45796, 33], [45796, 63]]"

section \<open>Tokenizer and sentence splitter\<close>

definition strip :: "unicode_tables \<Rightarrow> pystr \<Rightarrow> pystr" where
  "strip U s = rev (dropWhile (isspace U) (rev (dropWhile (isspace U) s)))"

definition word_char :: "unicode_tables \<Rightarrow> nat \<Rightarrow> bool" where
  "word_char U c \<longleftrightarrow> isalnum U c \<or> c = 95"

text \<open>
  \<open>re.findall(r"[\w]+", text)\<close>: the maximal runs of word characters, left to
  right. \<open>cur\<close> holds the run being read, reversed.
\<close>

fun findall_word :: "unicode_tables \<Rightarrow> pystr \<Rightarrow> pystr \<Rightarrow> pystr list" where
  "findall_word U cur [] = (if cur = [] then [] else [rev cur])"
| "findall_word U cur (c # cs) =
     (if word_char U c then findall_word U (c # cur) cs
      else (if cur = [] then [] else [rev cur]) @ findall_word U [] cs)"

definition simple_tokenize :: "unicode_tables \<Rightarrow> pystr \<Rightarrow> pystr list" where
  "simple_tokenize U text =
     (let tokens = findall_word U [] text
      in filter (\<lambda>t. strip U t \<noteq> []) tokens)"

text \<open>
  \<open>re.split(r"(?<=[\.!?])\s+|\n+", text)\<close>. The scan goes left to right; \<open>prev\<close>
  is the character before the current position (what the lookbehind reads),
  \<open>cur\<close> the piece being read, reversed. At each position the first alternative
  is tried first: after one of \<open>.\<close> (46), \<open>!\<close> (33), \<open>?\<close> (63), a greedy run of
  whitespace; otherwise a greedy run of newlines (10). Both alternatives match
  at least one character, and the search resumes where the match ended.
\<close>

function re_split :: "unicode_tables \<Rightarrow> nat option \<Rightarrow> pystr \<Rightarrow> pystr \<Rightarrow> pystr list" where
  "re_split U prev cur [] = [rev cur]"
| "re_split U prev cur (c # cs) =
     (if (prev = Some 46 \<or> prev = Some 33 \<or> prev = Some 63) \<and> isspace U c
      then rev cur # re_split U (Some (last (c # takeWhile (isspace U) cs))) []
                                (dropWhile (isspace U) cs)
      else if c = 10
      then rev cur # re_split U (Some 10) [] (dropWhile (\<lambda>x. x = 10) cs)
      else re_split U (Some c) (c # cur) cs)"
  by pat_completeness auto
termination
  by (relation "measure (\<lambda>(U, prev, cur, text). length text)")
     (auto simp: length_dropWhile_le less_Suc_eq_le)

definition split_sentences :: "unicode_tables \<Rightarrow> pystr \<Rightarrow> pystr list" where
  "split_sentences U text =
     (let raw = re_split U None [] text;
          sentences = map (strip U) (filter (\<lambda>s. strip U s \<noteq> []) raw)
      in sentences)"

section \<open>Feature extraction\<close>

text \<open>
  \<open>Counter(tokens)\<close> keeps its keys in insertion order; \<open>most_common(1)\<close> is
  \<open>max\<close> over the items by count, which keeps the first of several maxima, and
  is the empty list on an empty counter.
\<close>

fun counter_add :: "('a \<times> nat) list \<Rightarrow> 'a \<Rightarrow> ('a \<times> nat) list" where
  "counter_add [] t = [(t, 1)]"
| "counter_add ((k, n) # kvs) t =
     (if k = t then (k, n + 1) # kvs else (k, n) # counter_add kvs t)"

definition Counter :: "'a list \<Rightarrow> ('a \<times> nat) list" where
  "Counter tokens = foldl counter_add [] tokens"

fun max_by_count :: "('a \<times> nat) \<Rightarrow> ('a \<times> nat) list \<Rightarrow> ('a \<times> nat)" where
  "max_by_count best [] = best"
| "max_by_count best (kv # kvs) =
     max_by_count (if snd best < snd kv then kv else best) kvs"

definition most_common1 :: "('a \<times> nat) list \<Rightarrow> ('a \<times> nat) list" where
  "most_common1 counts = (case counts of [] \<Rightarrow> [] | kv # kvs \<Rightarrow> [max_by_count kv kvs])"

text \<open>
  The loop over \<open>FORMAL_ENDINGS\<close> for one sentence: the count goes up by one at
  the first ending that is a suffix of the sentence, and the loop breaks.
\<close>

fun endings_loop :: "pystr \<Rightarrow> pystr list \<Rightarrow> nat \<Rightarrow> nat" where
  "endings_loop s [] formal_count = formal_count"
| "endings_loop s (fe # fes) formal_count =
     (if suffix fe s then formal_count + 1 else endings_loop s fes formal_count)"

fun sentences_loop :: "pystr list \<Rightarrow> pystr list \<Rightarrow> nat \<Rightarrow> nat" where
  "sentences_loop endings [] formal_count = formal_count"
| "sentences_loop endings (s # ss) formal_count =
     sentences_loop endings ss (endings_loop s endings formal_count)"

definition zero_features :: "string \<rightharpoonup> real" where
  "zero_features =
     [''length_tokens'' \<mapsto> 0,
      ''type_token_ratio'' \<mapsto> 0,
      ''avg_sentence_len'' \<mapsto> 0,
      ''sentence_burstiness'' \<mapsto> 0,
      ''repetition_ratio'' \<mapsto> 0,
      ''formal_ending_ratio'' \<mapsto> 0,
      ''connectives_per_sentence'' \<mapsto> 0]"

definition compute_features :: "unicode_tables \<Rightarrow> pystr \<Rightarrow> error + (string \<rightharpoonup> real)" where
  "compute_features U text =
     (let sentences = split_sentences U text;
          tokens = simple_tokenize U text;
          n_tokens = length tokens;
          n_sent = (if sentences \<noteq> [] then length sentences else 1)
      in if n_tokens = 0 then Inr zero_features
         else
           let unique_tokens = set tokens;
               type_token_ratio = real (card unique_tokens) / real n_tokens;
               sent_lens = map (\<lambda>s. length (simple_tokenize U s)) sentences;
               avg_sentence_len =
                 (if n_sent \<noteq> 0 then real (sum_list sent_lens) / real n_sent else 0);
               std =
                 (if length sent_lens > 1
                  then let mean = avg_sentence_len;
                           var = sum_list (map (\<lambda>l. (real l - mean) ^ 2) sent_lens)
                                 / real (length sent_lens - 1)
                       in sqrt var
                  else 0);
               burstiness = (if avg_sentence_len > 0 then std / avg_sentence_len else 0);
               counts = Counter tokens
           in case most_common1 counts of
                [] \<Rightarrow> Inl IndexError
              | kv # _ \<Rightarrow>
                  let most_common_freq = snd kv;
                      repetition_ratio = real most_common_freq / real n_tokens;
                      formal_count = sentences_loop FORMAL_ENDINGS sentences 0;
                      formal_ending_ratio =
                        (if n_sent \<noteq> 0 then real formal_count / real n_sent else 0);
                      connective_count =
                        length (filter (\<lambda>t. t \<in> KOREAN_CONNECTIVES) tokens);
                      connectives_per_sentence =
                        (if n_sent \<noteq> 0 then real connective_count / real n_sent else 0)
                  in Inr [''length_tokens'' \<mapsto> real n_tokens,
                          ''type_token_ratio'' \<mapsto> type_token_ratio,
                          ''avg_sentence_len'' \<mapsto> avg_sentence_len,
                          ''sentence_burstiness'' \<mapsto> burstiness,
                          ''repetition_ratio'' \<mapsto> repetition_ratio,
                          ''formal_ending_ratio'' \<mapsto> formal_ending_ratio,
                          ''connectives_per_sentence'' \<mapsto> connectives_per_sentence])"

section \<open>Scoring and labelling\<close>

text \<open>
  An exception leaves the function at once: \<open>ebind m f\<close> runs \<open>f\<close> on the value
  of \<open>m\<close>, or returns the error of \<open>m\<close>.
\<close>

definition ebind :: "error + 'a \<Rightarrow> ('a \<Rightarrow> error + 'b) \<Rightarrow> error + 'b" where
  "ebind m f = (case m of Inl e \<Rightarrow> Inl e | Inr v \<Rightarrow> f v)"

definition getitem :: "(string \<rightharpoonup> 'v) \<Rightarrow> string \<Rightarrow> error + 'v" where
  "getitem d k = (case d k of None \<Rightarrow> Inl (KeyError k) | Some v \<Rightarrow> Inr v)"

text \<open>The arithmetic of \<open>score_ai_likelihood\<close>, after its six subscripts.\<close>

definition score_values ::
  "real \<Rightarrow> real \<Rightarrow> real \<Rightarrow> real \<Rightarrow> real \<Rightarrow> real \<Rightarrow> (string \<rightharpoonup> real)" where
  "score_values ttr burst formal conn len repetition =
     (let base_penalty = (if len < 30 then 0.1 else 0.0);
          ttr_score = 1.0 - max 0.0 (min 1.0 ((ttr - 0.3) / (0.8 - 0.3)));
          burst_score = 1.0 - max 0.0 (min 1.0 (burst / 0.8));
          formal_score = max 0.0 (min 1.0 (formal / 0.8));
          conn_score = max 0.0 (min 1.0 (conn / 0.8));
          rep_score = max 0.0 (min 1.0 (repetition / 0.2));
          ai_score_raw =
            0.30 * ttr_score + 0.20 * burst_score + 0.20 * formal_score
            + 0.15 * conn_score + 0.15 * rep_score;
          ai_score = max 0.0 (min 1.0 (ai_score_raw + base_penalty));
          feature_scores =
            [''ttr_score'' \<mapsto> ttr_score,
             ''burstiness_score'' \<mapsto> burst_score,
             ''formal_score'' \<mapsto> formal_score,
             ''connectives_score'' \<mapsto> conn_score,
             ''repetition_score'' \<mapsto> rep_score]
      in feature_scores(''ai_score_raw'' \<mapsto> ai_score_raw, ''ai_score'' \<mapsto> ai_score))"

definition score_ai_likelihood :: "(string \<rightharpoonup> real) \<Rightarrow> error + (string \<rightharpoonup> real)" where
  "score_ai_likelihood features =
     ebind (getitem features ''type_token_ratio'') (\<lambda>ttr.
     ebind (getitem features ''sentence_burstiness'') (\<lambda>burst.
     ebind (getitem features ''formal_ending_ratio'') (\<lambda>formal.
     ebind (getitem features ''connectives_per_sentence'') (\<lambda>conn.
     ebind (getitem features ''length_tokens'') (\<lambda>len.
     ebind (getitem features ''repetition_ratio'') (\<lambda>repetition.
       Inr (score_values ttr burst formal conn len repetition)))))))"

definition label_from_score :: "real \<Rightarrow> string" where
  "label_from_score score =
     (if score \<ge> 0.7 then ''AI_LIKELY''
      else if score \<ge> 0.4 then ''UNCERTAIN''
      else ''HUMAN_LIKELY'')"

section \<open>The route \<open>/ai/gpt_killer\<close>\<close>

record response =
  ai_score :: real
  label :: string
  feature_scores :: "string \<rightharpoonup> real"
  meta :: "string \<rightharpoonup> real"

definition gpt_killer :: "unicode_tables \<Rightarrow> pystr \<Rightarrow> error + response" where
  "gpt_killer U text =
     ebind (compute_features U text) (\<lambda>features.
     ebind (score_ai_likelihood features) (\<lambda>scores.
     ebind (getitem scores ''ai_score'') (\<lambda>a.
     ebind (getitem features ''length_tokens'') (\<lambda>m1.
     ebind (getitem features ''avg_sentence_len'') (\<lambda>m2.
     ebind (getitem features ''sentence_burstiness'') (\<lambda>m3.
     ebind (getitem features ''type_token_ratio'') (\<lambda>m4.
     ebind (getitem features ''formal_ending_ratio'') (\<lambda>m5.
     ebind (getitem features ''connectives_per_sentence'') (\<lambda>m6.
     ebind (getitem features ''repetition_ratio'') (\<lambda>m7.
       Inr \<lparr> ai_score = a,
             label = label_from_score a,
             feature_scores = scores,
             meta = [''length_tokens'' \<mapsto> m1,
                     ''avg_sentence_len'' \<mapsto> m2,
                     ''sentence_burstiness'' \<mapsto> m3,
                     ''type_token_ratio'' \<mapsto> m4,
                     ''formal_ending_ratio'' \<mapsto> m5,
                     ''connectives_per_sentence'' \<mapsto> m6,
                     ''repetition_ratio'' \<mapsto> m7] \<rparr>))))))))))"

section \<open>Named parts of the computations\<close>

text \<open>
  The expressions of \<open>score_ai_likelihood\<close> and \<open>compute_features\<close>, named so that
  the statements below can refer to them, and the notions the statements compare
  them with.
\<close>

definition ttr_score_of :: "real \<Rightarrow> real" where
  "ttr_score_of ttr = 1.0 - max 0.0 (min 1.0 ((ttr - 0.3) / (0.8 - 0.3)))"

definition burst_score_of :: "real \<Rightarrow> real" where
  "burst_score_of burst = 1.0 - max 0.0 (min 1.0 (burst / 0.8))"

definition formal_score_of :: "real \<Rightarrow> real" where
  "formal_score_of formal = max 0.0 (min 1.0 (formal / 0.8))"

definition conn_score_of :: "real \<Rightarrow> real" where
  "conn_score_of conn = max 0.0 (min 1.0 (conn / 0.8))"

definition rep_score_of :: "real \<Rightarrow> real" where
  "rep_score_of repetition = max 0.0 (min 1.0 (repetition / 0.2))"

definition raw_of :: "real \<Rightarrow> real \<Rightarrow> real \<Rightarrow> real \<Rightarrow> real \<Rightarrow> real" where
  "raw_of ttr burst formal conn repetition =
     0.30 * ttr_score_of ttr + 0.20 * burst_score_of burst + 0.20 * formal_score_of formal
     + 0.15 * conn_score_of conn + 0.15 * rep_score_of repetition"

definition final_of :: "real \<Rightarrow> real \<Rightarrow> real" where
  "final_of raw len = max 0.0 (min 1.0 (raw + (if len < 30 then 0.1 else 0.0)))"

definition feature_keys :: "string list" where
  "feature_keys = [''length_tokens'', ''type_token_ratio'', ''avg_sentence_len'',
     ''sentence_burstiness'', ''repetition_ratio'', ''formal_ending_ratio'',
     ''connectives_per_sentence'']"

definition read_keys :: "string list" where
  "read_keys = [''type_token_ratio'', ''sentence_burstiness'', ''formal_ending_ratio'',
     ''connectives_per_sentence'', ''length_tokens'', ''repetition_ratio'']"

definition no_avg_features :: "string \<rightharpoonup> real" where
  "no_avg_features =
     [''length_tokens'' \<mapsto> 0,
      ''type_token_ratio'' \<mapsto> 0,
      ''sentence_burstiness'' \<mapsto> 0,
      ''repetition_ratio'' \<mapsto> 0,
      ''formal_ending_ratio'' \<mapsto> 0,
      ''connectives_per_sentence'' \<mapsto> 0]"

definition n_sent_of :: "pystr list \<Rightarrow> nat" where
  "n_sent_of sentences = (if sentences \<noteq> [] then length sentences else 1)"

definition sent_lens_of :: "unicode_tables \<Rightarrow> pystr list \<Rightarrow> nat list" where
  "sent_lens_of U sentences = map (\<lambda>s. length (simple_tokenize U s)) sentences"

definition avg_of :: "unicode_tables \<Rightarrow> pystr list \<Rightarrow> real" where
  "avg_of U sentences =
     (if n_sent_of sentences \<noteq> 0
      then real (sum_list (sent_lens_of U sentences)) / real (n_sent_of sentences) else 0)"

definition std_of :: "unicode_tables \<Rightarrow> pystr list \<Rightarrow> real" where
  "std_of U sentences =
     (if length (sent_lens_of U sentences) > 1
      then sqrt (sum_list (map (\<lambda>l. (real l - avg_of U sentences) ^ 2) (sent_lens_of U sentences))
                 / real (length (sent_lens_of U sentences) - 1))
      else 0)"

definition burstiness_of :: "unicode_tables \<Rightarrow> pystr list \<Rightarrow> real" where
  "burstiness_of U sentences =
     (if avg_of U sentences > 0 then std_of U sentences / avg_of U sentences else 0)"

definition formal_ratio_of :: "pystr list \<Rightarrow> pystr list \<Rightarrow> real" where
  "formal_ratio_of endings sentences =
     (if n_sent_of sentences \<noteq> 0
      then real (sentences_loop endings sentences 0) / real (n_sent_of sentences) else 0)"

definition mean :: "nat list \<Rightarrow> real" where
  "mean xs = real (sum_list xs) / real (length xs)"


definition SHORT_ENDINGS :: "pystr list" where
  "SHORT_ENDINGS = [[45796, 46], [45796, 33], [45796, 63]]"

definition sub_score_keys :: "string list" where
  "sub_score_keys = [''ttr_score'', ''burstiness_score'', ''formal_score'',
     ''connectives_score'', ''repetition_score'']"

section \<open>The scorer in binary64 arithmetic\<close>

text \<open>
  A finite double is a rational number. \<open>fl\<close> rounds a rational to the nearest
  double, ties to even: 53 significant bits, least exponent \<open>-1022\<close> (so the
  subnormal numbers are multiples of \<open>2 powi (-1074)\<close>). A Python literal such as
  \<open>0.3\<close> denotes \<open>fl 0.3\<close>; the literals \<open>0.0\<close>, \<open>1.0\<close> and \<open>30\<close> are doubles
  themselves. Every arithmetic operation returns the rounded exact result.

  What is left out: the sign of zero, which no output of the scorer depends on;
  infinities and NaN as inputs, which the type excludes; and the overflow
  threshold. In \<open>score_ai_likelihood\<close> the only operations whose result can exceed
  the largest double are the divisions, and each of them is clamped to [0, 1] at
  once, where the infinity of the program and the large number of the model give
  the same value. The divisors \<open>fl 0.8\<close>, \<open>fl 0.2\<close> and \<open>fl 0.8 - fl 0.3\<close> are not zero.
\<close>

definition ilog2 :: "rat \<Rightarrow> int" where
  "ilog2 x =
     (let (p, q) = quotient_of \<bar>x\<bar>;
          d = bitlen p - bitlen q
      in if 2 powi d \<le> \<bar>x\<bar> then d else d - 1)"

definition round_half_even :: "rat \<Rightarrow> int" where
  "round_half_even x =
     (let n = \<lfloor>x\<rfloor>;
          r = x - of_int n
      in if r < 1 / 2 then n
         else if 1 / 2 < r then n + 1
         else if even n then n else n + 1)"

definition fl :: "rat \<Rightarrow> rat" where
  "fl x =
     (if x = 0 then 0
      else let e = max (ilog2 x) (- 1022);
               ulp = 2 powi (e - 52)
           in of_int (round_half_even (x / ulp)) * ulp)"

definition fadd :: "rat \<Rightarrow> rat \<Rightarrow> rat" where
  "fadd x y = fl (x + y)"

definition fsub :: "rat \<Rightarrow> rat \<Rightarrow> rat" where
  "fsub x y = fl (x - y)"

definition fmul :: "rat \<Rightarrow> rat \<Rightarrow> rat" where
  "fmul x y = fl (x * y)"

definition fdiv :: "rat \<Rightarrow> rat \<Rightarrow> rat" where
  "fdiv x y = fl (x / y)"

text \<open>
  \<open>score_ai_likelihood\<close>, \<open>label_from_score\<close> and their arithmetic once more, every
  operation rounded as the program rounds it. The sum of the five weighted
  sub-scores is evaluated left to right.
\<close>

definition score_values_f64 ::
  "rat \<Rightarrow> rat \<Rightarrow> rat \<Rightarrow> rat \<Rightarrow> rat \<Rightarrow> rat \<Rightarrow> (string \<rightharpoonup> rat)" where
  "score_values_f64 ttr burst formal conn len repetition =
     (let base_penalty = (if len < 30 then fl 0.1 else 0.0);
          ttr_score =
            fsub 1.0 (max 0.0 (min 1.0 (fdiv (fsub ttr (fl 0.3)) (fsub (fl 0.8) (fl 0.3)))));
          burst_score = fsub 1.0 (max 0.0 (min 1.0 (fdiv burst (fl 0.8))));
          formal_score = max 0.0 (min 1.0 (fdiv formal (fl 0.8)));
          conn_score = max 0.0 (min 1.0 (fdiv conn (fl 0.8)));
          rep_score = max 0.0 (min 1.0 (fdiv repetition (fl 0.2)));
          ai_score_raw =
            fadd (fadd (fadd (fadd (fmul (fl 0.30) ttr_score)
                                   (fmul (fl 0.20) burst_score))
                             (fmul (fl 0.20) formal_score))
                       (fmul (fl 0.15) conn_score))
                 (fmul (fl 0.15) rep_score);
          ai_score = max 0.0 (min 1.0 (fadd ai_score_raw base_penalty));
          feature_scores =
            [''ttr_score'' \<mapsto> ttr_score,
             ''burstiness_score'' \<mapsto> burst_score,
             ''formal_score'' \<mapsto> formal_score,
             ''connectives_score'' \<mapsto> conn_score,
             ''repetition_score'' \<mapsto> rep_score]
      in feature_scores(''ai_score_raw'' \<mapsto> ai_score_raw, ''ai_score'' \<mapsto> ai_score))"

definition score_ai_likelihood_f64 :: "(string \<rightharpoonup> rat) \<Rightarrow> error + (string \<rightharpoonup> rat)" where
  "score_ai_likelihood_f64 features =
     ebind (getitem features ''type_token_ratio'') (\<lambda>ttr.
     ebind (getitem features ''sentence_burstiness'') (\<lambda>burst.
     ebind (getitem features ''formal_ending_ratio'') (\<lambda>formal.
     ebind (getitem features ''connectives_per_sentence'') (\<lambda>conn.
     ebind (getitem features ''length_tokens'') (\<lambda>len.
     ebind (getitem features ''repetition_ratio'') (\<lambda>repetition.
       Inr (score_values_f64 ttr burst formal conn len repetition)))))))"

definition label_from_score_f64 :: "rat \<Rightarrow> string" where
  "label_from_score_f64 score =
     (if score \<ge> fl 0.7 then ''AI_LIKELY''
      else if score \<ge> fl 0.4 then ''UNCERTAIN''
      else ''HUMAN_LIKELY'')"

text \<open>The expressions of \<open>score_values_f64\<close>, named.\<close>

definition ttr_score_f64 :: "rat \<Rightarrow> rat" where
  "ttr_score_f64 ttr =
     fsub 1.0 (max 0.0 (min 1.0 (fdiv (fsub ttr (fl 0.3)) (fsub (fl 0.8) (fl 0.3)))))"

definition burst_score_f64 :: "rat \<Rightarrow> rat" where
  "burst_score_f64 burst = fsub 1.0 (max 0.0 (min 1.0 (fdiv burst (fl 0.8))))"

definition formal_score_f64 :: "rat \<Rightarrow> rat" where
  "formal_score_f64 formal = max 0.0 (min 1.0 (fdiv formal (fl 0.8)))"

definition conn_score_f64 :: "rat \<Rightarrow> rat" where
  "conn_score_f64 conn = max 0.0 (min 1.0 (fdiv conn (fl 0.8)))"

definition rep_score_f64 :: "rat \<Rightarrow> rat" where
  "rep_score_f64 repetition = max 0.0 (min 1.0 (fdiv repetition (fl 0.2)))"

definition raw_f64 :: "rat \<Rightarrow> rat \<Rightarrow> rat \<Rightarrow> rat \<Rightarrow> rat \<Rightarrow> rat" where
  "raw_f64 ttr_score burst_score formal_score conn_score rep_score =
     fadd (fadd (fadd (fadd (fmul (fl 0.30) ttr_score)
                            (fmul (fl 0.20) burst_score))
                      (fmul (fl 0.20) formal_score))
                (fmul (fl 0.15) conn_score))
          (fmul (fl 0.15) rep_score)"

definition final_f64 :: "rat \<Rightarrow> rat \<Rightarrow> rat" where
  "final_f64 raw len = max 0.0 (min 1.0 (fadd raw (if len < 30 then fl 0.1 else 0.0)))"

section \<open>Properties\<close>

lemma score_values_eq:
  "score_values ttr burst formal conn len repetition =
     [''ttr_score'' \<mapsto> ttr_score_of ttr,
      ''burstiness_score'' \<mapsto> burst_score_of burst,
      ''formal_score'' \<mapsto> formal_score_of formal,
      ''connectives_score'' \<mapsto> conn_score_of conn,
      ''repetition_score'' \<mapsto> rep_score_of repetition,
      ''ai_score_raw'' \<mapsto> raw_of ttr burst formal conn repetition,
      ''ai_score'' \<mapsto> final_of (raw_of ttr burst formal conn repetition) len]"
  by (simp only: score_values_def Let_def ttr_score_of_def burst_score_of_def
        formal_score_of_def conn_score_of_def rep_score_of_def raw_of_def final_of_def)

lemma score_values_lookup:
  "score_values t b fo c l r ''ttr_score'' = Some (ttr_score_of t)"
  "score_values t b fo c l r ''burstiness_score'' = Some (burst_score_of b)"
  "score_values t b fo c l r ''formal_score'' = Some (formal_score_of fo)"
  "score_values t b fo c l r ''connectives_score'' = Some (conn_score_of c)"
  "score_values t b fo c l r ''repetition_score'' = Some (rep_score_of r)"
  "score_values t b fo c l r ''ai_score_raw'' = Some (raw_of t b fo c r)"
  "score_values t b fo c l r ''ai_score'' = Some (final_of (raw_of t b fo c r) l)"
  by (simp_all add: score_values_eq)

lemma score_ai_likelihood_present:
  assumes "f ''type_token_ratio'' = Some ttr" "f ''sentence_burstiness'' = Some burst"
    "f ''formal_ending_ratio'' = Some formal" "f ''connectives_per_sentence'' = Some conn"
    "f ''length_tokens'' = Some len" "f ''repetition_ratio'' = Some repetition"
  shows "score_ai_likelihood f = Inr (score_values ttr burst formal conn len repetition)"
  using assms by (simp add: score_ai_likelihood_def ebind_def getitem_def)

lemma sub_score_bounds:
  "0 \<le> ttr_score_of x \<and> ttr_score_of x \<le> 1"
  "0 \<le> burst_score_of x \<and> burst_score_of x \<le> 1"
  "0 \<le> formal_score_of x \<and> formal_score_of x \<le> 1"
  "0 \<le> conn_score_of x \<and> conn_score_of x \<le> 1"
  "0 \<le> rep_score_of x \<and> rep_score_of x \<le> 1"
  by (simp_all add: ttr_score_of_def burst_score_of_def formal_score_of_def
        conn_score_of_def rep_score_of_def)


lemma final_of_bounds: "0 \<le> final_of x l \<and> final_of x l \<le> 1"
  by (simp add: final_of_def)


lemma read_keys_present:
  assumes "set read_keys \<subseteq> dom f"
  shows "\<exists>ttr burst formal conn len repetition.
    f ''type_token_ratio'' = Some ttr \<and> f ''sentence_burstiness'' = Some burst \<and>
    f ''formal_ending_ratio'' = Some formal \<and> f ''connectives_per_sentence'' = Some conn \<and>
    f ''length_tokens'' = Some len \<and> f ''repetition_ratio'' = Some repetition"
proof -
  have "''type_token_ratio'' \<in> dom f" "''sentence_burstiness'' \<in> dom f"
    "''formal_ending_ratio'' \<in> dom f" "''connectives_per_sentence'' \<in> dom f"
    "''length_tokens'' \<in> dom f" "''repetition_ratio'' \<in> dom f"
    using assms by (simp_all add: read_keys_def)
  then show ?thesis by (auto simp: dom_def)
qed

lemma read_keys_feature_keys: "set read_keys \<subseteq> set feature_keys"
  by (simp add: read_keys_def feature_keys_def)

lemma score_ai_likelihood_total:
  assumes "set read_keys \<subseteq> dom f"
  shows "\<exists>ttr burst formal conn len repetition.
    f ''type_token_ratio'' = Some ttr \<and> f ''sentence_burstiness'' = Some burst \<and>
    f ''formal_ending_ratio'' = Some formal \<and> f ''connectives_per_sentence'' = Some conn \<and>
    f ''length_tokens'' = Some len \<and> f ''repetition_ratio'' = Some repetition \<and>
    score_ai_likelihood f = Inr (score_values ttr burst formal conn len repetition)"
  using read_keys_present[OF assms] score_ai_likelihood_present by blast

lemma score_ai_likelihood_missing:
  assumes "k \<in> set read_keys" "f k = None"
  shows "\<exists>k'. k' \<in> set read_keys \<and> f k' = None \<and> score_ai_likelihood f = Inl (KeyError k')"
proof -
  have "\<exists>k' \<in> set read_keys. f k' = None \<and> score_ai_likelihood f = Inl (KeyError k')"
    using assms
    by (auto simp: read_keys_def score_ai_likelihood_def ebind_def getitem_def
          split: option.splits)
  then show ?thesis by blast
qed

text \<open>
  Claim C2, as stated, fails: the mapping with the six keys that the scorer
  subscripts and without \<open>avg_sentence_len\<close> is scored, no lookup error is raised.
\<close>

theorem missing_avg_sentence_len_scores:
  "no_avg_features ''avg_sentence_len'' = None \<and>
   score_ai_likelihood no_avg_features = Inr (score_values 0 0 0 0 0 0)"
  by (simp add: no_avg_features_def score_ai_likelihood_def ebind_def getitem_def)

text \<open>
  Claim C2, amended: \<open>score_ai_likelihood\<close> subscripts six of the seven keys (all but
  \<open>avg_sentence_len\<close>). A mapping that omits one of these six raises \<open>KeyError\<close> for a
  key it omits; a mapping that has the six is scored, whether or not it has
  \<open>avg_sentence_len\<close>.
\<close>

theorem missing_read_key_raises:
  "(k \<in> set read_keys \<and> f k = None \<longrightarrow>
      (\<exists>k'. k' \<in> set read_keys \<and> f k' = None \<and> score_ai_likelihood f = Inl (KeyError k')))
   \<and> (set read_keys \<subseteq> dom f \<longrightarrow> (\<exists>r. score_ai_likelihood f = Inr r))
   \<and> ''avg_sentence_len'' \<notin> set read_keys
   \<and> set feature_keys = insert ''avg_sentence_len'' (set read_keys)"
proof (intro conjI impI)
  assume "k \<in> set read_keys \<and> f k = None"
  then show "\<exists>k'. k' \<in> set read_keys \<and> f k' = None \<and> score_ai_likelihood f = Inl (KeyError k')"
    using score_ai_likelihood_missing by blast
next
  assume "set read_keys \<subseteq> dom f"
  from score_ai_likelihood_total[OF this]
  show "\<exists>r. score_ai_likelihood f = Inr r" by blast
next
  show "''avg_sentence_len'' \<notin> set read_keys" by (simp add: read_keys_def)
next
  show "set feature_keys = insert ''avg_sentence_len'' (set read_keys)"
    by (auto simp: read_keys_def feature_keys_def)
qed

text \<open>
  Claim C2, amended, at the empty mapping and at the mapping without
  \<open>avg_sentence_len\<close>.
\<close>

theorem missing_read_key_raises_witness:
  "score_ai_likelihood Map.empty = Inl (KeyError ''type_token_ratio'')
   \<and> (\<exists>r. score_ai_likelihood no_avg_features = Inr r)"
proof -
  have a: "''type_token_ratio'' \<in> set read_keys \<and> (Map.empty :: string \<rightharpoonup> real) ''type_token_ratio'' = None"
    by (simp add: read_keys_def)
  have b: "set read_keys \<subseteq> dom no_avg_features"
    by (simp add: read_keys_def no_avg_features_def)
  from missing_read_key_raises[of "''type_token_ratio''" Map.empty] a
  have "\<exists>k'. score_ai_likelihood Map.empty = Inl (KeyError k')" by blast
  moreover have "score_ai_likelihood Map.empty = Inl (KeyError ''type_token_ratio'')"
    by (simp add: score_ai_likelihood_def ebind_def getitem_def)
  moreover from missing_read_key_raises[of k no_avg_features] b
  have "\<exists>r. score_ai_likelihood no_avg_features = Inr r" by blast
  ultimately show ?thesis by blast
qed

text \<open>
  Claim C4: \<open>label_from_score\<close> is total and its three labels partition the real
  line: \<open>AI_LIKELY\<close> exactly when the score is at least 0.7, \<open>UNCERTAIN\<close> exactly when
  it is at least 0.4 and below 0.7, \<open>HUMAN_LIKELY\<close> exactly when it is below 0.4; the
  boundaries 0.7 and 0.4 belong to the higher label.
\<close>

theorem label_from_score_partition:
  "(label_from_score s = ''AI_LIKELY'' \<longleftrightarrow> 0.7 \<le> s)
   \<and> (label_from_score s = ''UNCERTAIN'' \<longleftrightarrow> 0.4 \<le> s \<and> s < 0.7)
   \<and> (label_from_score s = ''HUMAN_LIKELY'' \<longleftrightarrow> s < 0.4)
   \<and> label_from_score 0.7 = ''AI_LIKELY'' \<and> label_from_score 0.4 = ''UNCERTAIN''"
  by (simp add: label_from_score_def)

text \<open>
  Claim C4 at one score of each band.
\<close>

theorem label_from_score_partition_witness:
  "label_from_score 0.9 = ''AI_LIKELY'' \<and> label_from_score 0.5 = ''UNCERTAIN''
   \<and> label_from_score 0.1 = ''HUMAN_LIKELY''"
  using label_from_score_partition[of "0.9"] label_from_score_partition[of "0.5"]
    label_from_score_partition[of "0.1"]
  by simp

lemma formal_score_of_mono: "a \<le> b \<Longrightarrow> formal_score_of a \<le> formal_score_of b"
  unfolding formal_score_of_def by (simp add: max_def min_def)

lemma ttr_score_of_antimono: "a \<le> b \<Longrightarrow> ttr_score_of b \<le> ttr_score_of a"
  unfolding ttr_score_of_def by (simp add: max_def min_def)

lemma final_of_mono: "x \<le> y \<Longrightarrow> final_of x l \<le> final_of y l"
  unfolding final_of_def by (simp add: max_def min_def)

lemma raw_of_mono_formal: "a \<le> b \<Longrightarrow> raw_of t bu a c r \<le> raw_of t bu b c r"
  unfolding raw_of_def using formal_score_of_mono[of a b] by simp

lemma raw_of_antimono_ttr: "a \<le> b \<Longrightarrow> raw_of b bu fo c r \<le> raw_of a bu fo c r"
  unfolding raw_of_def using ttr_score_of_antimono[of a b] by simp

lemma feature_keys_present:
  assumes "set feature_keys \<subseteq> dom f"
  shows "\<exists>ttr burst formal conn len repetition.
    f ''type_token_ratio'' = Some ttr \<and> f ''sentence_burstiness'' = Some burst \<and>
    f ''formal_ending_ratio'' = Some formal \<and> f ''connectives_per_sentence'' = Some conn \<and>
    f ''length_tokens'' = Some len \<and> f ''repetition_ratio'' = Some repetition \<and>
    score_ai_likelihood f = Inr (score_values ttr burst formal conn len repetition)"
  using score_ai_likelihood_total[of f] assms read_keys_feature_keys by blast

text \<open>
  Claim C6: with the other features fixed, a larger \<open>formal_ending_ratio\<close> never gives
  a smaller \<open>ai_score\<close>, and a larger \<open>type_token_ratio\<close> within [0.3, 0.8] never gives
  a larger \<open>ai_score\<close>. Both scorings succeed.
\<close>

theorem ai_score_monotone:
  assumes "set feature_keys \<subseteq> dom f" and "a \<le> b"
  shows "(\<exists>ra rb x y.
            score_ai_likelihood (f(''formal_ending_ratio'' \<mapsto> a)) = Inr ra \<and>
            score_ai_likelihood (f(''formal_ending_ratio'' \<mapsto> b)) = Inr rb \<and>
            ra ''ai_score'' = Some x \<and> rb ''ai_score'' = Some y \<and> x \<le> y)
       \<and> (0.3 \<le> a \<and> b \<le> 0.8 \<longrightarrow>
           (\<exists>ra rb x y.
            score_ai_likelihood (f(''type_token_ratio'' \<mapsto> a)) = Inr ra \<and>
            score_ai_likelihood (f(''type_token_ratio'' \<mapsto> b)) = Inr rb \<and>
            ra ''ai_score'' = Some x \<and> rb ''ai_score'' = Some y \<and> y \<le> x))"
proof -
  from feature_keys_present[OF assms(1)] obtain ttr burst formal conn len repetition where
    k: "f ''type_token_ratio'' = Some ttr" "f ''sentence_burstiness'' = Some burst"
       "f ''formal_ending_ratio'' = Some formal" "f ''connectives_per_sentence'' = Some conn"
       "f ''length_tokens'' = Some len" "f ''repetition_ratio'' = Some repetition"
    by blast
  have fo: "score_ai_likelihood (f(''formal_ending_ratio'' \<mapsto> v)) =
      Inr (score_values ttr burst v conn len repetition)" for v
    by (rule score_ai_likelihood_present) (simp_all add: k)
  have tt: "score_ai_likelihood (f(''type_token_ratio'' \<mapsto> v)) =
      Inr (score_values v burst formal conn len repetition)" for v
    by (rule score_ai_likelihood_present) (simp_all add: k)
  have m1: "final_of (raw_of ttr burst a conn repetition) len
      \<le> final_of (raw_of ttr burst b conn repetition) len"
    by (rule final_of_mono, rule raw_of_mono_formal, rule assms(2))
  have m2: "final_of (raw_of b burst formal conn repetition) len
      \<le> final_of (raw_of a burst formal conn repetition) len"
    by (rule final_of_mono, rule raw_of_antimono_ttr, rule assms(2))
  have p1: "\<exists>ra rb x y.
            score_ai_likelihood (f(''formal_ending_ratio'' \<mapsto> a)) = Inr ra \<and>
            score_ai_likelihood (f(''formal_ending_ratio'' \<mapsto> b)) = Inr rb \<and>
            ra ''ai_score'' = Some x \<and> rb ''ai_score'' = Some y \<and> x \<le> y"
    using fo[of a] fo[of b] m1 score_values_lookup(7) by blast
  have p2: "\<exists>ra rb x y.
            score_ai_likelihood (f(''type_token_ratio'' \<mapsto> a)) = Inr ra \<and>
            score_ai_likelihood (f(''type_token_ratio'' \<mapsto> b)) = Inr rb \<and>
            ra ''ai_score'' = Some x \<and> rb ''ai_score'' = Some y \<and> y \<le> x"
    using tt[of a] tt[of b] m2 score_values_lookup(7) by blast
  from p1 p2 show ?thesis by blast
qed

text \<open>
  Claim C8: \<open>repetition_score\<close> is \<open>repetition_ratio / 0.2\<close> clamped to [0, 1]; it is 1
  at \<open>repetition_ratio = 0.2\<close> and above.
\<close>

theorem repetition_score_clamped:
  assumes "set feature_keys \<subseteq> dom f" and "f ''repetition_ratio'' = Some x"
  shows "\<exists>r. score_ai_likelihood f = Inr r
     \<and> r ''repetition_score'' = Some (max 0 (min 1 (x / 0.2)))
     \<and> (x = 0.2 \<longrightarrow> r ''repetition_score'' = Some 1)
     \<and> (0.2 < x \<longrightarrow> r ''repetition_score'' = Some 1)"
proof -
  from feature_keys_present[OF assms(1)] assms(2)
  obtain ttr burst formal conn len where
    s: "score_ai_likelihood f = Inr (score_values ttr burst formal conn len x)"
    by auto
  have a: "rep_score_of x = max 0 (min 1 (x / 0.2))"
    by (simp add: rep_score_of_def)
  have b: "0.2 \<le> x \<Longrightarrow> rep_score_of x = 1"
    by (simp add: rep_score_of_def)
  show ?thesis
    unfolding s using a b by (auto simp: score_values_lookup(5))
qed


lemma counter_add_nonempty: "counter_add kvs t \<noteq> []"
  by (cases kvs) (auto split: if_splits)

lemma foldl_counter_add_nonempty:
  "acc \<noteq> [] \<or> ts \<noteq> [] \<Longrightarrow> foldl counter_add acc ts \<noteq> []"
  by (induction ts arbitrary: acc) (auto simp: counter_add_nonempty)

lemma most_common1_Counter:
  assumes "tokens \<noteq> []"
  shows "\<exists>kv. most_common1 (Counter tokens) = [kv]"
proof -
  have "Counter tokens \<noteq> []"
    unfolding Counter_def using assms foldl_counter_add_nonempty by blast
  then obtain kv kvs where "Counter tokens = kv # kvs"
    by (cases "Counter tokens") auto
  then show ?thesis by (simp add: most_common1_def)
qed

lemma compute_features_empty:
  "simple_tokenize U text = [] \<Longrightarrow> compute_features U text = Inr zero_features"
  by (simp add: compute_features_def Let_def)

lemma compute_features_nonempty:
  assumes "simple_tokenize U text \<noteq> []"
  shows "\<exists>ttr rep conn. compute_features U text =
    Inr [''length_tokens'' \<mapsto> real (length (simple_tokenize U text)),
         ''type_token_ratio'' \<mapsto> ttr,
         ''avg_sentence_len'' \<mapsto> avg_of U (split_sentences U text),
         ''sentence_burstiness'' \<mapsto> burstiness_of U (split_sentences U text),
         ''repetition_ratio'' \<mapsto> rep,
         ''formal_ending_ratio'' \<mapsto> formal_ratio_of FORMAL_ENDINGS (split_sentences U text),
         ''connectives_per_sentence'' \<mapsto> conn]"
proof -
  from most_common1_Counter[OF assms] obtain kv where
    mc: "most_common1 (Counter (simple_tokenize U text)) = [kv]" by blast
  have n: "length (simple_tokenize U text) \<noteq> 0" using assms by simp
  have "compute_features U text =
    Inr [''length_tokens'' \<mapsto> real (length (simple_tokenize U text)),
         ''type_token_ratio'' \<mapsto>
            real (card (set (simple_tokenize U text))) / real (length (simple_tokenize U text)),
         ''avg_sentence_len'' \<mapsto> avg_of U (split_sentences U text),
         ''sentence_burstiness'' \<mapsto> burstiness_of U (split_sentences U text),
         ''repetition_ratio'' \<mapsto> real (snd kv) / real (length (simple_tokenize U text)),
         ''formal_ending_ratio'' \<mapsto> formal_ratio_of FORMAL_ENDINGS (split_sentences U text),
         ''connectives_per_sentence'' \<mapsto>
            (if n_sent_of (split_sentences U text) \<noteq> 0
             then real (length (filter (\<lambda>t. t \<in> KOREAN_CONNECTIVES) (simple_tokenize U text)))
                  / real (n_sent_of (split_sentences U text)) else 0)]"
    unfolding compute_features_def Let_def avg_of_def burstiness_of_def std_of_def
      formal_ratio_of_def sent_lens_of_def n_sent_of_def mc
    by (simp only: n if_False list.case)
  then show ?thesis by blast
qed

lemma zero_features_keys: "set feature_keys \<subseteq> dom zero_features"
  by (simp add: feature_keys_def zero_features_def)

text \<open>
  Claim C6 at the all-zero feature set, between 0.3 and 0.8.
\<close>

theorem ai_score_monotone_witness:
  "(\<exists>ra rb x y.
      score_ai_likelihood (zero_features(''formal_ending_ratio'' \<mapsto> 0.3)) = Inr ra \<and>
      score_ai_likelihood (zero_features(''formal_ending_ratio'' \<mapsto> 0.8)) = Inr rb \<and>
      ra ''ai_score'' = Some x \<and> rb ''ai_score'' = Some y \<and> x \<le> y)
   \<and> (\<exists>ra rb x y.
      score_ai_likelihood (zero_features(''type_token_ratio'' \<mapsto> 0.3)) = Inr ra \<and>
      score_ai_likelihood (zero_features(''type_token_ratio'' \<mapsto> 0.8)) = Inr rb \<and>
      ra ''ai_score'' = Some x \<and> rb ''ai_score'' = Some y \<and> y \<le> x)"
proof -
  have le: "(0.3::real) \<le> 0.8" by simp
  have iv: "(0.3::real) \<le> 0.3 \<and> (0.8::real) \<le> 0.8" by simp
  from ai_score_monotone[OF zero_features_keys le] iv show ?thesis by blast
qed

text \<open>
  Claim C8 at \<open>repetition_ratio = 0.2\<close> and at 0.5.
\<close>

theorem repetition_score_clamped_witness:
  "(\<exists>r. score_ai_likelihood (zero_features(''repetition_ratio'' \<mapsto> 0.2)) = Inr r
        \<and> r ''repetition_score'' = Some 1)
   \<and> (\<exists>r. score_ai_likelihood (zero_features(''repetition_ratio'' \<mapsto> 0.5)) = Inr r
        \<and> r ''repetition_score'' = Some 1)"
proof -
  have k: "set feature_keys \<subseteq> dom (zero_features(''repetition_ratio'' \<mapsto> v))" for v
    using zero_features_keys by auto
  have a: "(zero_features(''repetition_ratio'' \<mapsto> v)) ''repetition_ratio'' = Some v" for v
    by simp
  have lt: "(0.2::real) < 0.5" by simp
  from repetition_score_clamped[OF k a, of "0.2"] repetition_score_clamped[OF k a, of "0.5"] lt
  show ?thesis by blast
qed


lemma zero_features_values: "\<forall>k\<in>set feature_keys. zero_features k = Some 0"
  by (simp add: feature_keys_def zero_features_def)

lemma zero_features_dom: "dom zero_features = set feature_keys"
  by (auto simp: feature_keys_def zero_features_def split: if_splits)

lemma score_zero_features:
  "score_ai_likelihood zero_features = Inr (score_values 0 0 0 0 0 0)"
  by (rule score_ai_likelihood_present) (simp_all add: zero_features_def)

lemma zero_scores:
  "raw_of 0 0 0 0 0 = 0.5" "final_of 0.5 0 = 0.6"
  by (simp_all add: raw_of_def ttr_score_of_def burst_score_of_def formal_score_of_def
        conn_score_of_def rep_score_of_def final_of_def)

lemma zero_score_values:
  "score_values 0 0 0 0 0 0 ''ai_score_raw'' = Some 0.5"
  "score_values 0 0 0 0 0 0 ''ai_score'' = Some 0.6"
  by (simp_all only: score_values_lookup zero_scores)

lemma label_06: "label_from_score 0.6 = ''UNCERTAIN''"
  by (simp add: label_from_score_def)

lemma punct_tokens: "simple_tokenize ascii_hangul [46, 32, 33] = []"
  by (simp add: simple_tokenize_def word_char_def ascii_hangul_def)

text \<open>
  Claim C1, as stated, fails: on the text \<open>". !"\<close>, which has no token, the features are
  all zero and the scorer returns \<open>ai_score_raw = 0.5\<close> and \<open>ai_score = 0.6\<close>, not 0.30
  and 0.40: at burstiness 0 the burstiness score is 1 as well and adds 0.20.
\<close>

theorem zero_token_score_is_0_6:
  "length (simple_tokenize ascii_hangul [46, 32, 33]) = 0
   \<and> compute_features ascii_hangul [46, 32, 33] = Inr zero_features
   \<and> score_ai_likelihood zero_features = Inr (score_values 0 0 0 0 0 0)
   \<and> score_values 0 0 0 0 0 0 ''ai_score_raw'' = Some 0.5
   \<and> score_values 0 0 0 0 0 0 ''ai_score'' = Some 0.6
   \<and> (0.5::real) \<noteq> 0.30 \<and> (0.6::real) \<noteq> 0.40"
  using punct_tokens compute_features_empty[OF punct_tokens] score_zero_features
    zero_score_values
  by simp

text \<open>
  Claim C1, amended: for every text whose token count is 0, \<open>compute_features\<close> returns
  the feature set with the seven keys, every value 0; scoring it gives
  \<open>ai_score_raw = 0.5\<close> (0.30 for the type-token ratio and 0.20 for the burstiness) and,
  with the short-text penalty 0.1, \<open>ai_score = 0.6\<close>, whose label is \<open>UNCERTAIN\<close>.
\<close>

theorem zero_token_features_and_score:
  assumes "length (simple_tokenize U text) = 0"
  shows "compute_features U text = Inr zero_features
     \<and> dom zero_features = set feature_keys
     \<and> (\<forall>k\<in>set feature_keys. zero_features k = Some 0)
     \<and> (\<exists>r. score_ai_likelihood zero_features = Inr r
            \<and> r ''ai_score_raw'' = Some 0.5 \<and> r ''ai_score'' = Some 0.6)
     \<and> label_from_score 0.6 = ''UNCERTAIN''"
proof -
  from assms have "simple_tokenize U text = []" by simp
  then have "compute_features U text = Inr zero_features" by (rule compute_features_empty)
  then show ?thesis
    using zero_features_dom zero_features_values score_zero_features zero_score_values label_06
    by blast
qed

text \<open>
  Claim C1, amended, on the text \<open>". !"\<close>.
\<close>

theorem zero_token_features_and_score_witness:
  "compute_features ascii_hangul [46, 32, 33] = Inr zero_features
   \<and> (\<exists>r. score_ai_likelihood zero_features = Inr r
          \<and> r ''ai_score_raw'' = Some 0.5 \<and> r ''ai_score'' = Some 0.6)
   \<and> label_from_score 0.6 = ''UNCERTAIN''"
proof -
  have "length (simple_tokenize ascii_hangul [46, 32, 33]) = 0"
    by (simp add: simple_tokenize_def word_char_def ascii_hangul_def)
  from zero_token_features_and_score[OF this] show ?thesis by blast
qed

lemma compute_features_total:
  "\<exists>f. compute_features U text = Inr f \<and> set feature_keys \<subseteq> dom f"
proof (cases "simple_tokenize U text = []")
  case True
  then show ?thesis using compute_features_empty zero_features_keys by blast
next
  case False
  from compute_features_nonempty[OF this] obtain ttr rep conn where
    "compute_features U text =
    Inr [''length_tokens'' \<mapsto> real (length (simple_tokenize U text)),
         ''type_token_ratio'' \<mapsto> ttr,
         ''avg_sentence_len'' \<mapsto> avg_of U (split_sentences U text),
         ''sentence_burstiness'' \<mapsto> burstiness_of U (split_sentences U text),
         ''repetition_ratio'' \<mapsto> rep,
         ''formal_ending_ratio'' \<mapsto> formal_ratio_of FORMAL_ENDINGS (split_sentences U text),
         ''connectives_per_sentence'' \<mapsto> conn]" by blast
  then show ?thesis by (simp add: feature_keys_def)
qed

lemma gpt_killer_total:
  "\<exists>resp. gpt_killer U text = Inr resp \<and> 0 \<le> ai_score resp \<and> ai_score resp \<le> 1"
proof -
  from compute_features_total obtain f where
    cf: "compute_features U text = Inr f" and k: "set feature_keys \<subseteq> dom f" by blast
  from feature_keys_present[OF k] obtain ttr burst formal conn len repetition where
    v: "f ''type_token_ratio'' = Some ttr" "f ''sentence_burstiness'' = Some burst"
       "f ''formal_ending_ratio'' = Some formal" "f ''connectives_per_sentence'' = Some conn"
       "f ''length_tokens'' = Some len" "f ''repetition_ratio'' = Some repetition"
    and s: "score_ai_likelihood f = Inr (score_values ttr burst formal conn len repetition)"
    by blast
  have "''avg_sentence_len'' \<in> dom f" using k by (simp add: feature_keys_def)
  then obtain avg where a: "f ''avg_sentence_len'' = Some avg" by blast
  let ?a = "final_of (raw_of ttr burst formal conn repetition) len"
  have "\<exists>m. gpt_killer U text =
      Inr \<lparr> ai_score = ?a, label = label_from_score ?a,
            feature_scores = score_values ttr burst formal conn len repetition, meta = m \<rparr>"
    by (simp add: gpt_killer_def ebind_def getitem_def cf s v a score_values_lookup(7))
  then show ?thesis using final_of_bounds by fastforce
qed

text \<open>
  Claim C5: for every feature set with the seven keys, the scorer returns, and each of
  the five sub-scores and the final \<open>ai_score\<close> is in [0, 1]; for every text the route
  returns a response whose \<open>ai_score\<close> is in [0, 1].
\<close>

theorem scores_in_unit_interval:
  "(set feature_keys \<subseteq> dom f \<longrightarrow>
      (\<exists>r. score_ai_likelihood f = Inr r
         \<and> (\<forall>k\<in>set sub_score_keys \<union> {''ai_score''}. \<exists>v. r k = Some v \<and> 0 \<le> v \<and> v \<le> 1)))
   \<and> (\<exists>resp. gpt_killer U text = Inr resp \<and> 0 \<le> ai_score resp \<and> ai_score resp \<le> 1)"
proof (intro conjI impI)
  assume "set feature_keys \<subseteq> dom f"
  from feature_keys_present[OF this] obtain ttr burst formal conn len repetition where
    s: "score_ai_likelihood f = Inr (score_values ttr burst formal conn len repetition)"
    by blast
  have "\<forall>k\<in>set sub_score_keys \<union> {''ai_score''}.
      \<exists>v. score_values ttr burst formal conn len repetition k = Some v \<and> 0 \<le> v \<and> v \<le> 1"
    by (simp add: sub_score_keys_def score_values_lookup sub_score_bounds final_of_bounds)
  with s show "\<exists>r. score_ai_likelihood f = Inr r
      \<and> (\<forall>k\<in>set sub_score_keys \<union> {''ai_score''}. \<exists>v. r k = Some v \<and> 0 \<le> v \<and> v \<le> 1)"
    by blast
next
  show "\<exists>resp. gpt_killer U text = Inr resp \<and> 0 \<le> ai_score resp \<and> ai_score resp \<le> 1"
    by (rule gpt_killer_total)
qed

text \<open>
  Claim C5 at the all-zero feature set and on the text \<open>". !"\<close>.
\<close>

theorem scores_in_unit_interval_witness:
  "(\<exists>r. score_ai_likelihood zero_features = Inr r
       \<and> (\<forall>k\<in>set sub_score_keys \<union> {''ai_score''}. \<exists>v. r k = Some v \<and> 0 \<le> v \<and> v \<le> 1))
   \<and> (\<exists>resp. gpt_killer ascii_hangul [46, 32, 33] = Inr resp
         \<and> 0 \<le> ai_score resp \<and> ai_score resp \<le> 1)"
  using scores_in_unit_interval[of zero_features ascii_hangul "[46, 32, 33]"] zero_features_keys
  by blast

lemma n_sent_of_pos: "n_sent_of ss \<noteq> 0"
  by (simp add: n_sent_of_def)






lemma compute_features_burstiness:
  "\<exists>f. compute_features U text = Inr f
     \<and> f ''avg_sentence_len'' =
         Some (if simple_tokenize U text = [] then 0 else avg_of U (split_sentences U text))
     \<and> f ''sentence_burstiness'' =
         Some (if simple_tokenize U text = [] then 0
               else burstiness_of U (split_sentences U text))
     \<and> f ''formal_ending_ratio'' =
         Some (if simple_tokenize U text = [] then 0
               else formal_ratio_of FORMAL_ENDINGS (split_sentences U text))"
proof (cases "simple_tokenize U text = []")
  case True
  then have "compute_features U text = Inr zero_features" by (rule compute_features_empty)
  with True show ?thesis by (simp add: zero_features_def)
next
  case False
  from compute_features_nonempty[OF this] obtain ttr rep conn where
    "compute_features U text =
    Inr [''length_tokens'' \<mapsto> real (length (simple_tokenize U text)),
         ''type_token_ratio'' \<mapsto> ttr,
         ''avg_sentence_len'' \<mapsto> avg_of U (split_sentences U text),
         ''sentence_burstiness'' \<mapsto> burstiness_of U (split_sentences U text),
         ''repetition_ratio'' \<mapsto> rep,
         ''formal_ending_ratio'' \<mapsto> formal_ratio_of FORMAL_ENDINGS (split_sentences U text),
         ''connectives_per_sentence'' \<mapsto> conn]" by blast
  with False show ?thesis by simp
qed


lemma endings_loop_short:
  "endings_loop s FORMAL_ENDINGS c = endings_loop s SHORT_ENDINGS c"
  by (auto simp: FORMAL_ENDINGS_def SHORT_ENDINGS_def dest: suffix_ConsD)

lemma sentences_loop_short:
  "sentences_loop FORMAL_ENDINGS ss c = sentences_loop SHORT_ENDINGS ss c"
  by (induction ss arbitrary: c) (simp_all add: endings_loop_short)

lemma formal_ratio_of_short:
  "formal_ratio_of FORMAL_ENDINGS ss = formal_ratio_of SHORT_ENDINGS ss"
  by (simp add: formal_ratio_of_def sentences_loop_short)

text \<open>
  Claim C9: the three endings that start with U+B2C8 are redundant. For every sentence
  the loop over the six endings counts what the loop over the three short endings
  counts, so does the loop over every sentence list, and the \<open>formal_ending_ratio\<close>
  that \<open>compute_features\<close> returns is the ratio computed with the three short endings.
\<close>

theorem formal_endings_redundant:
  "endings_loop s FORMAL_ENDINGS c = endings_loop s SHORT_ENDINGS c
   \<and> sentences_loop FORMAL_ENDINGS ss c = sentences_loop SHORT_ENDINGS ss c
   \<and> (\<exists>f. compute_features U text = Inr f
        \<and> f ''formal_ending_ratio'' =
            Some (if simple_tokenize U text = [] then 0
                  else formal_ratio_of SHORT_ENDINGS (split_sentences U text)))"
  using endings_loop_short sentences_loop_short compute_features_burstiness[of U "text"]
  by (simp only: formal_ratio_of_short) blast





lemma formal_text_split:
  "split_sentences ascii_hangul [54633, 45768, 45796, 46, 32, 51339, 45796, 33] =
     [[54633, 45768, 45796, 46], [51339, 45796, 33]]"
  by (simp add: split_sentences_def strip_def ascii_hangul_def)

lemma formal_text_tokens:
  "simple_tokenize ascii_hangul [54633, 45768, 45796, 46, 32, 51339, 45796, 33] =
     [[54633, 45768, 45796], [51339, 45796]]"
  by (simp add: simple_tokenize_def word_char_def strip_def ascii_hangul_def)

lemma formal_text_ratio:
  "formal_ratio_of SHORT_ENDINGS [[54633, 45768, 45796, 46], [51339, 45796, 33]] = 1"
  by (simp add: formal_ratio_of_def n_sent_of_def SHORT_ENDINGS_def suffix_to_prefix)

text \<open>
  Claim C9 on a text of two sentences, one ending in U+B2C8 U+B2E4 and a full stop, one
  in U+B2E4 and an exclamation mark.
\<close>

theorem formal_endings_redundant_witness:
  "endings_loop [54633, 45768, 45796, 46] FORMAL_ENDINGS 0
     = endings_loop [54633, 45768, 45796, 46] SHORT_ENDINGS 0
   \<and> (\<exists>f. compute_features ascii_hangul [54633, 45768, 45796, 46, 32, 51339, 45796, 33] = Inr f
        \<and> f ''formal_ending_ratio'' = Some 1)"
  using formal_endings_redundant[of "[54633, 45768, 45796, 46]" 0 "[]" ascii_hangul
      "[54633, 45768, 45796, 46, 32, 51339, 45796, 33]"]
  by (simp add: formal_text_tokens formal_text_split formal_text_ratio)

lemma score_ai_likelihood_f64_present:
  assumes "f ''type_token_ratio'' = Some ttr" "f ''sentence_burstiness'' = Some burst"
    "f ''formal_ending_ratio'' = Some formal" "f ''connectives_per_sentence'' = Some conn"
    "f ''length_tokens'' = Some len" "f ''repetition_ratio'' = Some repetition"
  shows "score_ai_likelihood_f64 f = Inr (score_values_f64 ttr burst formal conn len repetition)"
  using assms by (simp add: score_ai_likelihood_f64_def ebind_def getitem_def)

lemma score_values_f64_eq:
  "score_values_f64 ttr burst formal conn len repetition =
     [''ttr_score'' \<mapsto> ttr_score_f64 ttr,
      ''burstiness_score'' \<mapsto> burst_score_f64 burst,
      ''formal_score'' \<mapsto> formal_score_f64 formal,
      ''connectives_score'' \<mapsto> conn_score_f64 conn,
      ''repetition_score'' \<mapsto> rep_score_f64 repetition,
      ''ai_score_raw'' \<mapsto> raw_f64 (ttr_score_f64 ttr) (burst_score_f64 burst)
          (formal_score_f64 formal) (conn_score_f64 conn) (rep_score_f64 repetition),
      ''ai_score'' \<mapsto> final_f64 (raw_f64 (ttr_score_f64 ttr) (burst_score_f64 burst)
          (formal_score_f64 formal) (conn_score_f64 conn) (rep_score_f64 repetition)) len]"
  by (simp only: score_values_f64_def Let_def ttr_score_f64_def burst_score_f64_def
        formal_score_f64_def conn_score_f64_def rep_score_f64_def raw_f64_def final_f64_def)

lemma score_values_f64_lookup:
  "score_values_f64 t b fo c l r ''ttr_score'' = Some (ttr_score_f64 t)"
  "score_values_f64 t b fo c l r ''burstiness_score'' = Some (burst_score_f64 b)"
  "score_values_f64 t b fo c l r ''formal_score'' = Some (formal_score_f64 fo)"
  "score_values_f64 t b fo c l r ''connectives_score'' = Some (conn_score_f64 c)"
  "score_values_f64 t b fo c l r ''repetition_score'' = Some (rep_score_f64 r)"
  "score_values_f64 t b fo c l r ''ai_score_raw'' =
     Some (raw_f64 (ttr_score_f64 t) (burst_score_f64 b) (formal_score_f64 fo)
             (conn_score_f64 c) (rep_score_f64 r))"
  "score_values_f64 t b fo c l r ''ai_score'' =
     Some (final_f64 (raw_f64 (ttr_score_f64 t) (burst_score_f64 b) (formal_score_f64 fo)
             (conn_score_f64 c) (rep_score_f64 r)) l)"
  by (simp_all add: score_values_f64_eq)

lemma example_sub_scores_f64:
  "ttr_score_f64 1 = 0" "burst_score_f64 0 = 1" "formal_score_f64 0 = 0"
  "conn_score_f64 0 = 0" "rep_score_f64 (fl (1 / 20)) = 1 / 4"
  by code_simp+

lemma example_raw_f64:
  "raw_f64 0 1 0 0 (1 / 4) = 8556839292003943 / 36028797018963968"
  by code_simp

lemma example_final_f64:
  "final_f64 (8556839292003943 / 36028797018963968) 40 = 8556839292003943 / 36028797018963968"
  by code_simp

lemma example_label_f64:
  "label_from_score_f64 (8556839292003943 / 36028797018963968) = ''HUMAN_LIKELY''"
  by code_simp

lemma nearest_0_2375:
  "fl (2375 / 10000) = 8556839292003942 / 36028797018963968"
  by code_simp

lemma literal_0_05: "fl 0.05 = fl (1 / 20)"
  by simp

text \<open>
  Claim C3, as stated, fails: for its feature set the program's doubles give
  \<open>ai_score_raw = ai_score = 8556839292003943 / 2^55\<close> (printed 0.23750000000000002),
  which is neither the double nearest 0.2375 nor the number 0.2375.
\<close>

theorem worked_example_raw_is_not_0_2375:
  "score_ai_likelihood_f64
     [''length_tokens'' \<mapsto> 40, ''type_token_ratio'' \<mapsto> 1.0, ''avg_sentence_len'' \<mapsto> 20,
      ''sentence_burstiness'' \<mapsto> 0, ''repetition_ratio'' \<mapsto> fl 0.05,
      ''formal_ending_ratio'' \<mapsto> 0, ''connectives_per_sentence'' \<mapsto> 0]
     = Inr (score_values_f64 1.0 0 0 0 40 (fl 0.05))
   \<and> score_values_f64 1.0 0 0 0 40 (fl 0.05) ''ai_score_raw''
       = Some (8556839292003943 / 36028797018963968)
   \<and> score_values_f64 1.0 0 0 0 40 (fl 0.05) ''ai_score''
       = Some (8556839292003943 / 36028797018963968)
   \<and> fl 0.2375 = 8556839292003942 / 36028797018963968
   \<and> (8556839292003943 / 36028797018963968 :: rat) \<noteq> fl 0.2375
   \<and> (8556839292003943 / 36028797018963968 :: rat) \<noteq> 0.2375"
proof -
  have s: "score_ai_likelihood_f64
     [''length_tokens'' \<mapsto> 40, ''type_token_ratio'' \<mapsto> 1.0, ''avg_sentence_len'' \<mapsto> 20,
      ''sentence_burstiness'' \<mapsto> 0, ''repetition_ratio'' \<mapsto> fl 0.05,
      ''formal_ending_ratio'' \<mapsto> 0, ''connectives_per_sentence'' \<mapsto> 0]
     = Inr (score_values_f64 1.0 0 0 0 40 (fl 0.05))"
    by (rule score_ai_likelihood_f64_present) simp_all
  have one: "(1.0::rat) = 1" by simp
  have raw: "score_values_f64 1.0 0 0 0 40 (fl 0.05) ''ai_score_raw''
       = Some (8556839292003943 / 36028797018963968)"
    by (simp only: score_values_f64_lookup literal_0_05 one example_sub_scores_f64
          example_raw_f64)
  have fin: "score_values_f64 1.0 0 0 0 40 (fl 0.05) ''ai_score''
       = Some (8556839292003943 / 36028797018963968)"
    by (simp only: score_values_f64_lookup literal_0_05 one example_sub_scores_f64
          example_raw_f64 example_final_f64)
  have near: "fl 0.2375 = 8556839292003942 / 36028797018963968"
    using nearest_0_2375 by simp
  have ne1: "(8556839292003943 / 36028797018963968 :: rat) \<noteq> fl 0.2375"
    unfolding near by simp
  have ne2: "(8556839292003943 / 36028797018963968 :: rat) \<noteq> 0.2375"
    by simp
  from s raw fin near ne1 ne2 show ?thesis by blast
qed

text \<open>
  Claim C3, amended: for the feature set with \<open>type_token_ratio = 1.0\<close>,
  \<open>sentence_burstiness = 0\<close>, \<open>formal_ending_ratio = 0\<close>, \<open>connectives_per_sentence = 0\<close>,
  \<open>repetition_ratio = 0.05\<close> and \<open>length_tokens = 40\<close> (any \<open>avg_sentence_len\<close>), the scorer
  returns \<open>ttr_score = 0\<close>, \<open>burstiness_score = 1\<close>, \<open>formal_score = 0\<close>,
  \<open>connectives_score = 0\<close>, \<open>repetition_score = 0.25\<close> and, with no penalty,
  \<open>ai_score_raw = ai_score = 8556839292003943 / 2^55\<close>, the double one unit in the last
  place above the double nearest 0.2375; its label is \<open>HUMAN_LIKELY\<close>.
\<close>

theorem worked_example_scores_f64:
  "\<exists>r. score_ai_likelihood_f64
        [''length_tokens'' \<mapsto> 40, ''type_token_ratio'' \<mapsto> 1.0, ''avg_sentence_len'' \<mapsto> a,
         ''sentence_burstiness'' \<mapsto> 0, ''repetition_ratio'' \<mapsto> fl 0.05,
         ''formal_ending_ratio'' \<mapsto> 0, ''connectives_per_sentence'' \<mapsto> 0] = Inr r
     \<and> r ''ttr_score'' = Some 0 \<and> r ''burstiness_score'' = Some 1.0
     \<and> r ''formal_score'' = Some 0 \<and> r ''connectives_score'' = Some 0
     \<and> r ''repetition_score'' = Some 0.25
     \<and> r ''ai_score_raw'' = Some (8556839292003943 / 36028797018963968)
     \<and> r ''ai_score'' = Some (8556839292003943 / 36028797018963968)
     \<and> (8556839292003943 / 36028797018963968 :: rat) = fl 0.2375 + 2 powi (- 55)
     \<and> label_from_score_f64 (8556839292003943 / 36028797018963968) = ''HUMAN_LIKELY''"
proof -
  let ?f = "[''length_tokens'' \<mapsto> 40, ''type_token_ratio'' \<mapsto> 1.0, ''avg_sentence_len'' \<mapsto> a,
         ''sentence_burstiness'' \<mapsto> 0, ''repetition_ratio'' \<mapsto> fl 0.05,
         ''formal_ending_ratio'' \<mapsto> 0, ''connectives_per_sentence'' \<mapsto> (0::rat)]"
  let ?r = "score_values_f64 1.0 0 0 0 40 (fl 0.05)"
  have s: "score_ai_likelihood_f64 ?f = Inr ?r"
    by (rule score_ai_likelihood_f64_present) simp_all
  have one: "(1.0::rat) = 1" by simp
  have quarter: "(0.25::rat) = 1 / 4" by simp
  have sub: "?r ''ttr_score'' = Some 0" "?r ''burstiness_score'' = Some 1.0"
    "?r ''formal_score'' = Some 0" "?r ''connectives_score'' = Some 0"
    "?r ''repetition_score'' = Some 0.25"
    by (simp_all only: score_values_f64_lookup literal_0_05 one quarter example_sub_scores_f64)
  have raw: "?r ''ai_score_raw'' = Some (8556839292003943 / 36028797018963968)"
    by (simp only: score_values_f64_lookup literal_0_05 one example_sub_scores_f64
          example_raw_f64)
  have fin: "?r ''ai_score'' = Some (8556839292003943 / 36028797018963968)"
    by (simp only: score_values_f64_lookup literal_0_05 one example_sub_scores_f64
          example_raw_f64 example_final_f64)
  have near: "fl 0.2375 = 8556839292003942 / 36028797018963968"
    using nearest_0_2375 by simp
  have ulp: "(8556839292003943 / 36028797018963968 :: rat) = fl 0.2375 + 2 powi (- 55)"
    unfolding near by (simp add: power_int_minus)
  from s sub raw fin ulp example_label_f64 show ?thesis by blast
qed

end
